theory Spec2Isabelle
  imports Main "HOL-Library.Sublist"
begin

section \<open>Values that may be null or undefined\<close>

text \<open>
  A TypeScript value of type \<open>T | null | undefined\<close>. The hooks below use three
  operators on such values: nullish coalescing \<open>a ?? b\<close>, optional chaining
  \<open>a?.f\<close> and the truthiness test \<open>!!a\<close>.
\<close>

datatype 'a nullish = Undefined | Null | Def 'a

definition coalesce :: "'a nullish \<Rightarrow> 'a nullish \<Rightarrow> 'a nullish" where
  \<comment> \<open>\<open>a ?? b\<close>: the right operand when the left one is null or undefined\<close>
  "coalesce a b = (case a of Def x \<Rightarrow> Def x | Null \<Rightarrow> b | Undefined \<Rightarrow> b)"

definition opt_chain :: "'a nullish \<Rightarrow> ('a \<Rightarrow> 'b nullish) \<Rightarrow> 'b nullish" where
  \<comment> \<open>\<open>a?.f\<close>: undefined when \<open>a\<close> is null or undefined, the field otherwise\<close>
  "opt_chain a f = (case a of Def x \<Rightarrow> f x | Null \<Rightarrow> Undefined | Undefined \<Rightarrow> Undefined)"

definition truthy_object :: "'a nullish \<Rightarrow> bool" where
  \<comment> \<open>\<open>!!a\<close> for an object-typed \<open>a\<close>: every object is truthy\<close>
  "truthy_object a = (case a of Def x \<Rightarrow> True | Null \<Rightarrow> False | Undefined \<Rightarrow> False)"

definition truthy_string :: "string nullish \<Rightarrow> bool" where
  \<comment> \<open>truthiness of a string-typed \<open>a\<close>: the empty string is falsy\<close>
  "truthy_string a = (case a of Def s \<Rightarrow> s \<noteq> [] | Null \<Rightarrow> False | Undefined \<Rightarrow> False)"

section \<open>Errors, the query cache and the trace of effects\<close>

datatype error =
    NetworkError
  | HttpError nat
  | TypeError
  | Error string

type_synonym queryKey = "string list"

type_synonym callback = string

text \<open>
  What the hooks do to the outside world is recorded in a trace: remote calls, cache
  removals and invocations of the caller's callbacks. A callback is the caller's code;
  the trace records that it ran, under the label the caller gave it.
\<close>

datatype event =
    ApiGet string
  | SignInCalled string
  | SignOutCalled
  | QueriesRemoved queryKey
  | CallbackInvoked callback

record 'u query_state =
  state_data :: "'u nullish"
  stale :: bool

record 'u world =
  cache :: "queryKey \<rightharpoonup> 'u query_state"
  trace :: "event list"

definition emit :: "event \<Rightarrow> 'u world \<Rightarrow> 'u world" where
  "emit e w = w\<lparr>trace := trace w @ [e]\<rparr>"

definition invoke :: "callback option \<Rightarrow> 'u world \<Rightarrow> 'u world" where
  \<comment> \<open>\<open>onSuccess?.()\<close>: nothing happens when no callback was supplied\<close>
  "invoke cb w = (case cb of None \<Rightarrow> w | Some c \<Rightarrow> emit (CallbackInvoked c) w)"

section \<open>The libraries the hooks call\<close>

text \<open>
  The query library is not part of the repository. Its behaviour that the hooks rely on
  is modelled here. An observer reports the data cached under its key, whether it is
  enabled or not; it runs the query function only when it is enabled and the cache has
  no fresh entry under the key, and the result of the query function is then stored
  under the key. A mutation runs its success handler only when the mutation function
  has resolved, and fails with the error of the mutation function otherwise.
  \<open>removeQueries\<close> drops every entry whose key starts with the given key.
\<close>

record 'u query_options =
  queryKey :: queryKey
  queryFn :: "'u world \<Rightarrow> (error + 'u nullish) \<times> 'u world"

record 'u use_query_options = "'u query_options" +
  enabled :: bool

record 'u query_result =
  data :: "'u nullish"
  isFetching :: bool

definition fetchQuery :: "('u, 'x) query_options_scheme \<Rightarrow> 'u world \<Rightarrow> 'u world" where
  "fetchQuery opts w =
     (case queryFn opts w of
        (Inr d, w1) \<Rightarrow> w1\<lparr>cache := (cache w1)(queryKey opts \<mapsto> \<lparr>state_data = d, stale = False\<rparr>)\<rparr>
      | (Inl e, w1) \<Rightarrow> w1)"

definition should_fetch :: "'u use_query_options \<Rightarrow> 'u world \<Rightarrow> bool" where
  "should_fetch opts w =
     (enabled opts \<and> (case cache w (queryKey opts) of None \<Rightarrow> True | Some q \<Rightarrow> stale q))"

definition useQuery :: "'u use_query_options \<Rightarrow> 'u world \<Rightarrow> 'u query_result \<times> 'u world" where
  "useQuery opts w =
     (let cached = (case cache w (queryKey opts) of None \<Rightarrow> Undefined | Some q \<Rightarrow> state_data q)
      in if should_fetch opts w
         then (\<lparr>data = cached, isFetching = True\<rparr>, fetchQuery opts w)
         else (\<lparr>data = cached, isFetching = False\<rparr>, w))"

definition removeQueries :: "queryKey \<Rightarrow> 'u world \<Rightarrow> 'u world" where
  "removeQueries key w =
     emit (QueriesRemoved key) (w\<lparr>cache := (\<lambda>k. if prefix key k then None else cache w k)\<rparr>)"

definition mutate ::
  "('v \<Rightarrow> 'u world \<Rightarrow> (error + 'r) \<times> 'u world) \<Rightarrow> ('u world \<Rightarrow> 'u world) \<Rightarrow>
   'v \<Rightarrow> 'u world \<Rightarrow> (error + 'r) \<times> 'u world" where
  "mutate mutationFn onSuccess vars w =
     (case mutationFn vars w of
        (Inl e, w1) \<Rightarrow> (Inl e, w1)
      | (Inr r, w1) \<Rightarrow> (Inr r, onSuccess w1))"

section \<open>The authentication hooks\<close>

text \<open>
  The remote calls are parameters of the hooks, given by their outcomes: \<open>api_get\<close>
  is the HTTP client's \<open>get\<close>, \<open>signIn\<close> and \<open>signOut\<close> are the session
  provider's operations. A call that throws, or whose promise rejects, yields \<open>Inl\<close>
  of the error. The type of users, declared outside the source files, is the type
  variable \<open>'u\<close>.
\<close>

record 'u response =
  response_data :: "'u nullish"

record 'u Session =
  user :: "'u nullish"
  expires :: string

definition catch_all :: "(error + 'a) \<Rightarrow> 'a \<Rightarrow> error + 'a" where
  \<comment> \<open>\<open>try { ... } catch { return d }\<close>\<close>
  "catch_all r d = (case r of Inl e \<Rightarrow> Inr d | Inr v \<Rightarrow> Inr v)"

definition read_data :: "'u response nullish \<Rightarrow> error + 'u nullish" where
  \<comment> \<open>\<open>response.data\<close>: reading a property of null or undefined throws a TypeError\<close>
  "read_data r =
     (case r of
        Def x \<Rightarrow> Inr (response_data x)
      | Null \<Rightarrow> Inl TypeError
      | Undefined \<Rightarrow> Inl TypeError)"

definition userQueryFn ::
  "(string \<Rightarrow> error + 'u response nullish) \<Rightarrow> 'u world \<Rightarrow> (error + 'u nullish) \<times> 'u world" where
  "userQueryFn api_get w =
     (let w1 = emit (ApiGet ''/auth/me'') w
      in (catch_all
            (case api_get ''/auth/me'' of
               Inl e \<Rightarrow> Inl e
             | Inr response \<Rightarrow> read_data response)
            Null,
          w1))"

definition getUserQueryOptions :: "(string \<Rightarrow> error + 'u response nullish) \<Rightarrow> 'u query_options" where
  "getUserQueryOptions api_get = \<lparr>queryKey = [''user''], queryFn = userQueryFn api_get\<rparr>"

definition useUser_options ::
  "(string \<Rightarrow> error + 'u response nullish) \<Rightarrow> 'u Session nullish \<Rightarrow> 'u use_query_options" where
  \<comment> \<open>\<open>{ ...getUserQueryOptions(), enabled: !!session }\<close>\<close>
  "useUser_options api_get session =
     query_options.extend (getUserQueryOptions api_get)
       (use_query_options.fields (truthy_object session))"

definition useUser ::
  "(string \<Rightarrow> error + 'u response nullish) \<Rightarrow> 'u Session nullish \<Rightarrow> 'u world \<Rightarrow>
   'u query_result \<times> 'u world" where
  "useUser api_get session w =
     (case useQuery (useUser_options api_get session) w of
        (query, w1) \<Rightarrow>
          (query\<lparr>data := coalesce (coalesce (opt_chain session user) (data query)) Null\<rparr>, w1))"

record LoginInput =
  email :: string
  password :: string

record SignInOptions = LoginInput +
  redirect :: bool

record SignInResponse =
  error :: "string nullish"
  status :: nat
  ok :: bool
  url :: "string nullish"

definition new_Error :: "string nullish \<Rightarrow> error" where
  \<comment> \<open>\<open>new Error(m)\<close>: the message is \<open>m\<close> as a string\<close>
  "new_Error m = Error (case m of Def s \<Rightarrow> s | Null \<Rightarrow> ''null'' | Undefined \<Rightarrow> [])"

definition useLogin_mutationFn ::
  "(string \<Rightarrow> SignInOptions \<Rightarrow> error + SignInResponse nullish) \<Rightarrow> LoginInput \<Rightarrow> 'u world \<Rightarrow>
   (error + SignInResponse nullish) \<times> 'u world" where
  "useLogin_mutationFn signIn input w =
     (let w1 = emit (SignInCalled ''credentials'') w
      in case signIn ''credentials'' (LoginInput.extend input (SignInOptions.fields False)) of
           Inl e \<Rightarrow> (Inl e, w1)
         | Inr result \<Rightarrow>
             (if truthy_string (opt_chain result error)
              then (Inl (new_Error (opt_chain result error)), w1)
              else (Inr result, w1)))"

definition useLogin ::
  "callback option \<Rightarrow> (string \<Rightarrow> SignInOptions \<Rightarrow> error + SignInResponse nullish) \<Rightarrow>
   LoginInput \<Rightarrow> 'u world \<Rightarrow> (error + SignInResponse nullish) \<times> 'u world" where
  "useLogin onSuccess signIn = mutate (useLogin_mutationFn signIn) (invoke onSuccess)"

definition useLogout_mutationFn ::
  "(bool \<Rightarrow> error + 'r) \<Rightarrow> unit \<Rightarrow> 'u world \<Rightarrow> (error + 'r) \<times> 'u world" where
  \<comment> \<open>\<open>() => signOut({ redirect: false })\<close>\<close>
  "useLogout_mutationFn signOut _ w = (signOut False, emit SignOutCalled w)"

definition useLogout_onSuccess :: "callback option \<Rightarrow> 'u world \<Rightarrow> 'u world" where
  "useLogout_onSuccess onSuccess w = invoke onSuccess (removeQueries [''user''] w)"

definition useLogout ::
  "callback option \<Rightarrow> (bool \<Rightarrow> error + 'r) \<Rightarrow> 'u world \<Rightarrow> (error + 'r) \<times> 'u world" where
  "useLogout onSuccess signOut =
     mutate (useLogout_mutationFn signOut) (useLogout_onSuccess onSuccess) ()"

section \<open>The input schemas\<close>

text \<open>
  A schema validates a value of unknown shape, so its input is an untyped JavaScript
  value. A schema either accepts, with the parsed output, or rejects, with the issues it
  found. The schema combinators are those of the validation library, modelled as far as
  the two schemas of the repository use them: a string with its checks, the null
  literal, a default for an undefined input, an object that validates the keys of its
  shape and drops the others, the union that takes the first option that accepts, and
  the intersection that validates both sides on the same input and merges the outputs.
  What is or is not an email address is decided by the library; it is a parameter.
  The length of a string is the number of its code units, as \<open>min\<close> counts it.
  Values that no schema here accepts and no form produces (arrays, dates, functions) are
  left out of \<open>jsval\<close>. When a union rejects, the issues of its options are
  summed up in one \<open>invalid_union\<close> issue.
\<close>

datatype jsval =
    JUndefined
  | JNull
  | JBool bool
  | JNumber int
  | JString string
  | JObject "(string \<times> jsval) list"

datatype issue_code =
    invalid_type
  | too_small
  | invalid_string
  | invalid_union
  | invalid_intersection_types

datatype issue = Issue issue_code "string list" "string option"

type_synonym schema = "string list \<Rightarrow> jsval \<Rightarrow> issue list + jsval"

type_synonym string_check = "string list \<Rightarrow> string \<Rightarrow> issue list"

definition get_prop :: "jsval \<Rightarrow> string \<Rightarrow> jsval" where
  \<comment> \<open>\<open>v[k]\<close>: the value under the key, undefined when there is none\<close>
  "get_prop v k =
     (case v of
        JObject kvs \<Rightarrow> (case map_of kvs k of None \<Rightarrow> JUndefined | Some x \<Rightarrow> x)
      | _ \<Rightarrow> JUndefined)"

definition has_key :: "jsval \<Rightarrow> string \<Rightarrow> bool" where
  \<comment> \<open>\<open>k in v\<close>\<close>
  "has_key v k = (case v of JObject kvs \<Rightarrow> map_of kvs k \<noteq> None | _ \<Rightarrow> False)"

definition z_min :: "nat \<Rightarrow> string \<Rightarrow> string_check" where
  "z_min n msg path s = (if length s < n then [Issue too_small path (Some msg)] else [])"

definition z_email :: "(string \<Rightarrow> bool) \<Rightarrow> string \<Rightarrow> string_check" where
  "z_email is_email msg path s =
     (if is_email s then [] else [Issue invalid_string path (Some msg)])"

definition z_string :: "string_check list \<Rightarrow> schema" where
  "z_string checks path v =
     (case v of
        JString s \<Rightarrow>
          (let issues = concat (map (\<lambda>c. c path s) checks)
           in if issues = [] then Inr (JString s) else Inl issues)
      | _ \<Rightarrow> Inl [Issue invalid_type path None])"

definition z_null :: schema where
  "z_null path v = (case v of JNull \<Rightarrow> Inr JNull | _ \<Rightarrow> Inl [Issue invalid_type path None])"

definition z_default :: "jsval \<Rightarrow> schema \<Rightarrow> schema" where
  "z_default d inner path v = inner path (case v of JUndefined \<Rightarrow> d | _ \<Rightarrow> v)"

fun parse_shape ::
  "(string \<times> schema) list \<Rightarrow> string list \<Rightarrow> jsval \<Rightarrow> issue list + (string \<times> jsval) list" where
  "parse_shape [] path v = Inr []"
| "parse_shape ((k, s) # shape) path v =
     (case (s (path @ [k]) (get_prop v k), parse_shape shape path v) of
        (Inr x, Inr out) \<Rightarrow> Inr (if x = JUndefined \<and> \<not> has_key v k then out else (k, x) # out)
      | (Inl i, Inr out) \<Rightarrow> Inl i
      | (Inr x, Inl j) \<Rightarrow> Inl j
      | (Inl i, Inl j) \<Rightarrow> Inl (i @ j))"

definition z_object :: "(string \<times> schema) list \<Rightarrow> schema" where
  "z_object shape path v =
     (case v of
        JObject kvs \<Rightarrow> map_sum id JObject (parse_shape shape path v)
      | _ \<Rightarrow> Inl [Issue invalid_type path None])"

fun mergeValues :: "jsval \<Rightarrow> jsval \<Rightarrow> jsval option"
  and merge_fields ::
    "(string \<times> jsval) list \<Rightarrow> (string \<times> jsval) list \<Rightarrow> (string \<times> jsval) list option" where
  "mergeValues (JObject a) (JObject b) =
     (case merge_fields a b of
        None \<Rightarrow> None
      | Some m \<Rightarrow> Some (JObject (m @ filter (\<lambda>(k, y). map_of a k = None) b)))"
| "mergeValues (JObject a) JUndefined = None"
| "mergeValues (JObject a) JNull = None"
| "mergeValues (JObject a) (JBool y) = None"
| "mergeValues (JObject a) (JNumber y) = None"
| "mergeValues (JObject a) (JString y) = None"
| "mergeValues JUndefined b = (if b = JUndefined then Some b else None)"
| "mergeValues JNull b = (if b = JNull then Some b else None)"
| "mergeValues (JBool x) b = (if b = JBool x then Some b else None)"
| "mergeValues (JNumber x) b = (if b = JNumber x then Some b else None)"
| "mergeValues (JString x) b = (if b = JString x then Some b else None)"
| "merge_fields [] b = Some []"
| "merge_fields ((k, x) # a) b =
     (case map_of b k of
        None \<Rightarrow> map_option ((#) (k, x)) (merge_fields a b)
      | Some y \<Rightarrow>
          (case mergeValues x y of
             None \<Rightarrow> None
           | Some m \<Rightarrow> map_option ((#) (k, m)) (merge_fields a b)))"

definition z_and :: "schema \<Rightarrow> schema \<Rightarrow> schema" where
  "z_and l r path v =
     (case (l path v, r path v) of
        (Inr x, Inr y) \<Rightarrow>
          (case mergeValues x y of
             Some m \<Rightarrow> Inr m
           | None \<Rightarrow> Inl [Issue invalid_intersection_types path None])
      | (Inl i, Inr y) \<Rightarrow> Inl i
      | (Inr x, Inl j) \<Rightarrow> Inl j
      | (Inl i, Inl j) \<Rightarrow> Inl (i @ j))"

definition z_or :: "schema \<Rightarrow> schema \<Rightarrow> schema" where
  "z_or a b path v =
     (case a path v of
        Inr x \<Rightarrow> Inr x
      | Inl i \<Rightarrow> (case b path v of Inr y \<Rightarrow> Inr y | Inl j \<Rightarrow> Inl [Issue invalid_union path None]))"

definition parse :: "schema \<Rightarrow> jsval \<Rightarrow> issue list + jsval" where
  "parse s v = s [] v"

definition loginInputSchema :: "(string \<Rightarrow> bool) \<Rightarrow> schema" where
  "loginInputSchema is_email =
     z_object
       [(''email'', z_string [z_min 1 ''Required'', z_email is_email ''Invalid email'']),
        (''password'', z_string [z_min 5 ''Required''])]"

definition registerInputSchema :: schema where
  "registerInputSchema =
     z_and
       (z_object
          [(''email'', z_string [z_min 1 ''Required'']),
           (''firstName'', z_string [z_min 1 ''Required'']),
           (''lastName'', z_string [z_min 1 ''Required'']),
           (''password'', z_string [z_min 5 ''Required''])])
       (z_or
          (z_object
             [(''teamId'', z_string [z_min 1 ''Required'']),
              (''teamName'', z_default JNull z_null)])
          (z_object
             [(''teamName'', z_string [z_min 1 ''Required'']),
              (''teamId'', z_default JNull z_null)]))"

definition as_string :: "jsval \<Rightarrow> string" where
  \<comment> \<open>the string inside a value that validation has shown to be a string\<close>
  "as_string v = (case v of JString s \<Rightarrow> s | _ \<Rightarrow> [])"

definition to_LoginInput :: "jsval \<Rightarrow> LoginInput" where
  \<comment> \<open>\<open>z.infer<typeof loginInputSchema>\<close>: the typed view of a validated input\<close>
  "to_LoginInput v =
     \<lparr>email = as_string (get_prop v ''email''), password = as_string (get_prop v ''password'')\<rparr>"

text \<open>
  Modelled from the spec: the submission of the login form, which is not among the
  source files. The spec says that the credentials are "validated against
  minimum-length and email-format constraints before submission" and that login then
  "delegates to the session provider's credential exchange". So a submission parses
  the form values with \<open>loginInputSchema\<close>; when the schema rejects them it stops with
  the issues, and only otherwise runs the \<open>useLogin\<close> mutation on the parsed values.
\<close>

definition submitLogin ::
  "(string \<Rightarrow> bool) \<Rightarrow> callback option \<Rightarrow>
   (string \<Rightarrow> SignInOptions \<Rightarrow> error + SignInResponse nullish) \<Rightarrow> jsval \<Rightarrow> 'u world \<Rightarrow>
   (issue list + (error + SignInResponse nullish)) \<times> 'u world" where
  "submitLogin is_email onSuccess signIn values w =
     (case parse (loginInputSchema is_email) values of
        Inl issues \<Rightarrow> (Inl issues, w)
      | Inr input \<Rightarrow>
          (case useLogin onSuccess signIn (to_LoginInput input) w of
             (r, w1) \<Rightarrow> (Inr r, w1)))"

section \<open>The query-client configurations\<close>

text \<open>
  An option that a configuration does not mention is \<open>None\<close>: the library's default
  applies. Times are in milliseconds.
\<close>

record QueryDefaults =
  throwOnError :: "bool option"
  refetchOnWindowFocus :: "bool option"
  retry :: "bool option"
  staleTime :: "nat option"

record DefaultOptions =
  queries :: QueryDefaults

record QueryClient =
  defaultOptions :: DefaultOptions

definition queryConfig :: DefaultOptions where
  "queryConfig =
     \<lparr>queries =
        \<lparr>throwOnError = Some True,
         refetchOnWindowFocus = Some False,
         retry = Some False,
         staleTime = Some (1000 * 60)\<rparr>\<rparr>"

definition queryClient :: QueryClient where
  "queryClient = \<lparr>defaultOptions = queryConfig\<rparr>"

definition createQueryClient :: QueryClient where
  "createQueryClient =
     \<lparr>defaultOptions =
        \<lparr>queries =
           \<lparr>throwOnError = None,
            refetchOnWindowFocus = None,
            retry = None,
            staleTime = Some (30 * 1000)\<rparr>\<rparr>\<rparr>"

section \<open>Concrete inputs\<close>

text \<open>
  The inputs at which the theorems below are instantiated. Users are named by strings.
  \<open>cached_world\<close> is a cache that still holds a fetched user under the key
  \<open>["user"]\<close>, as it does after a session has ended without a logout.
\<close>

definition cached_world :: "string world" where
  "cached_world =
     \<lparr>cache = Map.empty([''user''] \<mapsto> \<lparr>state_data = Def ''bob'', stale = False\<rparr>),
      trace = []\<rparr>"

definition empty_world :: "string world" where
  "empty_world = \<lparr>cache = Map.empty, trace = []\<rparr>"

definition failing_api :: "string \<Rightarrow> error + string response nullish" where
  "failing_api path = Inl (HttpError 401)"

definition alice_session :: "string Session" where
  "alice_session = \<lparr>user = Def ''alice'', expires = ''2030-01-01T00:00:00.000Z''\<rparr>"

definition bob_login :: LoginInput where
  "bob_login = \<lparr>email = ''bob@example.com'', password = ''hunter22''\<rparr>"

definition denied_response :: SignInResponse where
  "denied_response = \<lparr>error = Def ''CredentialsSignin'', status = 401, ok = False, url = Null\<rparr>"

definition granted_response :: SignInResponse where
  "granted_response = \<lparr>error = Undefined, status = 200, ok = True, url = Def ''/''\<rparr>"

definition rejecting_signIn :: "string \<Rightarrow> SignInOptions \<Rightarrow> error + SignInResponse nullish" where
  "rejecting_signIn provider options = Inr (Def denied_response)"

definition accepting_signIn :: "string \<Rightarrow> SignInOptions \<Rightarrow> error + SignInResponse nullish" where
  "accepting_signIn provider options = Inr (Def granted_response)"

definition failing_signOut :: "bool \<Rightarrow> error + unit" where
  "failing_signOut redirect_option = Inl NetworkError"

definition working_signOut :: "bool \<Rightarrow> error + unit" where
  "working_signOut redirect_option = Inr ()"

definition has_at :: "string \<Rightarrow> bool" where
  \<comment> \<open>a stand-in for the library's email test: the string contains an at sign\<close>
  "has_at s = (CHR ''@'' \<in> set s)"

definition short_password_form :: jsval where
  "short_password_form =
     JObject [(''email'', JString ''bob@example.com''), (''password'', JString ''1234'')]"

definition bad_email_form :: jsval where
  "bad_email_form =
     JObject [(''email'', JString ''bob''), (''password'', JString ''hunter22'')]"

definition register_base :: "(string \<times> jsval) list" where
  "register_base =
     [(''email'', JString ''bob@example.com''), (''firstName'', JString ''Bob''),
      (''lastName'', JString ''Ross''), (''password'', JString ''hunter22'')]"

definition register_joining :: jsval where
  "register_joining = JObject (register_base @ [(''teamId'', JString ''team-7'')])"

definition register_founding :: jsval where
  "register_founding =
     JObject (register_base @ [(''teamId'', JNull), (''teamName'', JString ''Painters'')])"

definition register_both :: jsval where
  "register_both =
     JObject (register_base @
       [(''teamId'', JString ''team-7''), (''teamName'', JString ''Painters'')])"

definition register_neither :: jsval where
  "register_neither = JObject register_base"

section \<open>Facts about the schema combinators\<close>

lemma get_prop_non_object:
  "(\<forall>kvs. v \<noteq> JObject kvs) \<Longrightarrow> get_prop v k = JUndefined"
  by (cases v) (simp_all add: get_prop_def)

lemma loginInputSchema_accepts_iff:
  "parse (loginInputSchema is_email) v = Inr out \<longleftrightarrow>
   (\<exists>e p. get_prop v ''email'' = JString e \<and> get_prop v ''password'' = JString p \<and>
      1 \<le> length e \<and> is_email e \<and> 5 \<le> length p \<and>
      out = JObject [(''email'', JString e), (''password'', JString p)])"
proof (cases "\<exists>kvs. v = JObject kvs")
  case False
  then have "get_prop v ''email'' = JUndefined"
    by (simp add: get_prop_non_object)
  moreover from False
  have "parse (loginInputSchema is_email) v = Inl [Issue invalid_type [] None]"
    by (cases v) (simp_all add: parse_def loginInputSchema_def z_object_def)
  ultimately show ?thesis by simp
next
  case True
  then obtain kvs where v: "v = JObject kvs" by blast
  have "parse (loginInputSchema is_email) v =
      map_sum id JObject (parse_shape
       [(''email'', z_string [z_min 1 ''Required'', z_email is_email ''Invalid email'']),
        (''password'', z_string [z_min 5 ''Required''])] [] v)"
    by (simp add: v parse_def loginInputSchema_def z_object_def)
  then show ?thesis
    by (auto simp: z_string_def z_min_def z_email_def Let_def Suc_le_eq
        split: jsval.splits sum.splits if_splits)
qed

lemma z_string_min_Inr:
  "z_string [z_min n msg] path v = Inr x \<longleftrightarrow> (\<exists>s. v = JString s \<and> x = JString s \<and> n \<le> length s)"
  by (auto simp: z_string_def z_min_def split: jsval.splits)

lemma z_default_null_Inr:
  "z_default JNull z_null path v = Inr x \<longleftrightarrow> (v = JUndefined \<or> v = JNull) \<and> x = JNull"
  by (auto simp: z_default_def z_null_def split: jsval.splits)

lemma z_object_non_object:
  "(\<forall>kvs. v \<noteq> JObject kvs) \<Longrightarrow> z_object shape path v = Inl [Issue invalid_type path None]"
  by (cases v) (simp_all add: z_object_def)

lemma z_object_Inr:
  "z_object shape path v = Inr x \<longleftrightarrow>
     (\<exists>kvs. v = JObject kvs) \<and> (\<exists>out. parse_shape shape path v = Inr out \<and> x = JObject out)"
  by (cases v; cases "parse_shape shape path v") (auto simp: z_object_def)

lemma parse_shape_Cons_Inr:
  "parse_shape ((k, s) # shape) path v = Inr out \<longleftrightarrow>
     (\<exists>x rest. s (path @ [k]) (get_prop v k) = Inr x \<and> parse_shape shape path v = Inr rest \<and>
        out = (if x = JUndefined \<and> \<not> has_key v k then rest else (k, x) # rest))"
  by (auto split: sum.splits)

lemma get_prop_JString_object:
  "get_prop v k = JString s \<Longrightarrow> \<exists>kvs. v = JObject kvs"
  by (cases v) (simp_all add: get_prop_def)

lemma register_base_object:
  "z_object
          [(''email'', z_string [z_min 1 ''Required'']),
           (''firstName'', z_string [z_min 1 ''Required'']),
           (''lastName'', z_string [z_min 1 ''Required'']),
           (''password'', z_string [z_min 5 ''Required''])] [] v = Inr x \<longleftrightarrow>
   (\<exists>e f l p. get_prop v ''email'' = JString e \<and> 1 \<le> length e \<and>
      get_prop v ''firstName'' = JString f \<and> 1 \<le> length f \<and>
      get_prop v ''lastName'' = JString l \<and> 1 \<le> length l \<and>
      get_prop v ''password'' = JString p \<and> 5 \<le> length p \<and>
      x = JObject [(''email'', JString e), (''firstName'', JString f),
                   (''lastName'', JString l), (''password'', JString p)])"
  unfolding z_object_Inr parse_shape_Cons_Inr z_string_min_Inr
  by (auto dest: get_prop_JString_object)

lemma register_team_id_object:
  "z_object [(''teamId'', z_string [z_min 1 ''Required'']),
             (''teamName'', z_default JNull z_null)] [] v = Inr y \<longleftrightarrow>
   (\<exists>t. get_prop v ''teamId'' = JString t \<and> 1 \<le> length t \<and>
      (get_prop v ''teamName'' = JUndefined \<or> get_prop v ''teamName'' = JNull) \<and>
      y = JObject [(''teamId'', JString t), (''teamName'', JNull)])"
  unfolding z_object_Inr parse_shape_Cons_Inr z_string_min_Inr z_default_null_Inr
  by (auto dest: get_prop_JString_object)

lemma register_team_name_object:
  "z_object [(''teamName'', z_string [z_min 1 ''Required'']),
             (''teamId'', z_default JNull z_null)] [] v = Inr y \<longleftrightarrow>
   (\<exists>t. get_prop v ''teamName'' = JString t \<and> 1 \<le> length t \<and>
      (get_prop v ''teamId'' = JUndefined \<or> get_prop v ''teamId'' = JNull) \<and>
      y = JObject [(''teamName'', JString t), (''teamId'', JNull)])"
  unfolding z_object_Inr parse_shape_Cons_Inr z_string_min_Inr z_default_null_Inr
  by (auto dest: get_prop_JString_object)

lemma z_or_Inr:
  "z_or a b path v = Inr x \<longleftrightarrow>
     a path v = Inr x \<or> (isl (a path v) \<and> b path v = Inr x)"
  by (auto simp: z_or_def split: sum.splits)

lemma z_and_Inr:
  "z_and l r path v = Inr out \<longleftrightarrow>
     (\<exists>x y. l path v = Inr x \<and> r path v = Inr y \<and> mergeValues x y = Some out)"
  by (auto simp: z_and_def split: sum.splits option.splits)

lemma registerInputSchema_accepts_iff:
  "parse registerInputSchema v = Inr out \<longleftrightarrow>
   (\<exists>e f l p. get_prop v ''email'' = JString e \<and> 1 \<le> length e \<and>
      get_prop v ''firstName'' = JString f \<and> 1 \<le> length f \<and>
      get_prop v ''lastName'' = JString l \<and> 1 \<le> length l \<and>
      get_prop v ''password'' = JString p \<and> 5 \<le> length p \<and>
      ((\<exists>t. get_prop v ''teamId'' = JString t \<and> 1 \<le> length t \<and>
          (get_prop v ''teamName'' = JUndefined \<or> get_prop v ''teamName'' = JNull) \<and>
          out = JObject [(''email'', JString e), (''firstName'', JString f),
                   (''lastName'', JString l), (''password'', JString p),
                   (''teamId'', JString t), (''teamName'', JNull)]) \<or>
       (\<exists>t. get_prop v ''teamName'' = JString t \<and> 1 \<le> length t \<and>
          (get_prop v ''teamId'' = JUndefined \<or> get_prop v ''teamId'' = JNull) \<and>
          out = JObject [(''email'', JString e), (''firstName'', JString f),
                   (''lastName'', JString l), (''password'', JString p),
                   (''teamName'', JString t), (''teamId'', JNull)])))"
  (is "?L \<longleftrightarrow> ?R")
proof
  assume ?L
  then obtain x y where x: "z_object
          [(''email'', z_string [z_min 1 ''Required'']),
           (''firstName'', z_string [z_min 1 ''Required'']),
           (''lastName'', z_string [z_min 1 ''Required'']),
           (''password'', z_string [z_min 5 ''Required''])] [] v = Inr x"
    and y: "z_object [(''teamId'', z_string [z_min 1 ''Required'']),
             (''teamName'', z_default JNull z_null)] [] v = Inr y \<or>
            z_object [(''teamName'', z_string [z_min 1 ''Required'']),
             (''teamId'', z_default JNull z_null)] [] v = Inr y"
    and m: "mergeValues x y = Some out"
    unfolding parse_def registerInputSchema_def z_and_Inr z_or_Inr by blast
  from x obtain e f l p where b: "get_prop v ''email'' = JString e" "1 \<le> length e"
      "get_prop v ''firstName'' = JString f" "1 \<le> length f"
      "get_prop v ''lastName'' = JString l" "1 \<le> length l"
      "get_prop v ''password'' = JString p" "5 \<le> length p"
      and xe: "x = JObject [(''email'', JString e), (''firstName'', JString f),
                   (''lastName'', JString l), (''password'', JString p)]"
    unfolding register_base_object by blast
  from y show ?R
  proof
    assume "z_object [(''teamId'', z_string [z_min 1 ''Required'']),
             (''teamName'', z_default JNull z_null)] [] v = Inr y"
    then obtain t where t: "get_prop v ''teamId'' = JString t" "1 \<le> length t"
       "get_prop v ''teamName'' = JUndefined \<or> get_prop v ''teamName'' = JNull"
       and ye: "y = JObject [(''teamId'', JString t), (''teamName'', JNull)]"
      unfolding register_team_id_object by blast
    from m have "out = JObject [(''email'', JString e), (''firstName'', JString f),
                   (''lastName'', JString l), (''password'', JString p),
                   (''teamId'', JString t), (''teamName'', JNull)]"
      by (simp add: xe ye)
    with b t show ?R by blast
  next
    assume "z_object [(''teamName'', z_string [z_min 1 ''Required'']),
             (''teamId'', z_default JNull z_null)] [] v = Inr y"
    then obtain t where t: "get_prop v ''teamName'' = JString t" "1 \<le> length t"
       "get_prop v ''teamId'' = JUndefined \<or> get_prop v ''teamId'' = JNull"
       and ye: "y = JObject [(''teamName'', JString t), (''teamId'', JNull)]"
      unfolding register_team_name_object by blast
    from m have "out = JObject [(''email'', JString e), (''firstName'', JString f),
                   (''lastName'', JString l), (''password'', JString p),
                   (''teamName'', JString t), (''teamId'', JNull)]"
      by (simp add: xe ye)
    with b t show ?R by blast
  qed
next
  assume ?R
  then obtain e f l p where b: "get_prop v ''email'' = JString e" "1 \<le> length e"
      "get_prop v ''firstName'' = JString f" "1 \<le> length f"
      "get_prop v ''lastName'' = JString l" "1 \<le> length l"
      "get_prop v ''password'' = JString p" "5 \<le> length p"
    and alt: "(\<exists>t. get_prop v ''teamId'' = JString t \<and> 1 \<le> length t \<and>
          (get_prop v ''teamName'' = JUndefined \<or> get_prop v ''teamName'' = JNull) \<and>
          out = JObject [(''email'', JString e), (''firstName'', JString f),
                   (''lastName'', JString l), (''password'', JString p),
                   (''teamId'', JString t), (''teamName'', JNull)]) \<or>
       (\<exists>t. get_prop v ''teamName'' = JString t \<and> 1 \<le> length t \<and>
          (get_prop v ''teamId'' = JUndefined \<or> get_prop v ''teamId'' = JNull) \<and>
          out = JObject [(''email'', JString e), (''firstName'', JString f),
                   (''lastName'', JString l), (''password'', JString p),
                   (''teamName'', JString t), (''teamId'', JNull)])"
    by blast
  from b have x: "z_object
          [(''email'', z_string [z_min 1 ''Required'']),
           (''firstName'', z_string [z_min 1 ''Required'']),
           (''lastName'', z_string [z_min 1 ''Required'']),
           (''password'', z_string [z_min 5 ''Required''])] [] v =
       Inr (JObject [(''email'', JString e), (''firstName'', JString f),
                   (''lastName'', JString l), (''password'', JString p)])"
    unfolding register_base_object by blast
  from alt consider
    (by_id) t where "get_prop v ''teamId'' = JString t" "1 \<le> length t"
       "get_prop v ''teamName'' = JUndefined \<or> get_prop v ''teamName'' = JNull"
       "out = JObject [(''email'', JString e), (''firstName'', JString f),
                   (''lastName'', JString l), (''password'', JString p),
                   (''teamId'', JString t), (''teamName'', JNull)]"
  | (by_name) t where "get_prop v ''teamName'' = JString t" "1 \<le> length t"
       "get_prop v ''teamId'' = JUndefined \<or> get_prop v ''teamId'' = JNull"
       "out = JObject [(''email'', JString e), (''firstName'', JString f),
                   (''lastName'', JString l), (''password'', JString p),
                   (''teamName'', JString t), (''teamId'', JNull)]"
    by blast
  then show ?L
  proof cases
    case by_id
    then have t: "get_prop v ''teamId'' = JString t" "1 \<le> length t"
       "get_prop v ''teamName'' = JUndefined \<or> get_prop v ''teamName'' = JNull"
       and out: "out = JObject [(''email'', JString e), (''firstName'', JString f),
                   (''lastName'', JString l), (''password'', JString p),
                   (''teamId'', JString t), (''teamName'', JNull)]"
      by simp_all
    from t have "z_object [(''teamId'', z_string [z_min 1 ''Required'']),
             (''teamName'', z_default JNull z_null)] [] v =
         Inr (JObject [(''teamId'', JString t), (''teamName'', JNull)])"
      unfolding register_team_id_object by blast
    with x show ?L
      by (simp add: parse_def registerInputSchema_def z_and_def z_or_def out)
  next
    case by_name
    then have t: "get_prop v ''teamName'' = JString t" "1 \<le> length t"
       "get_prop v ''teamId'' = JUndefined \<or> get_prop v ''teamId'' = JNull"
       and out: "out = JObject [(''email'', JString e), (''firstName'', JString f),
                   (''lastName'', JString l), (''password'', JString p),
                   (''teamName'', JString t), (''teamId'', JNull)]"
      by simp_all
    from t have n: "z_object [(''teamName'', z_string [z_min 1 ''Required'']),
             (''teamId'', z_default JNull z_null)] [] v =
         Inr (JObject [(''teamName'', JString t), (''teamId'', JNull)])"
      unfolding register_team_name_object by blast
    from t have "\<not> (\<exists>y. z_object [(''teamId'', z_string [z_min 1 ''Required'']),
             (''teamName'', z_default JNull z_null)] [] v = Inr y)"
      unfolding register_team_id_object by auto
    then obtain i where "z_object [(''teamId'', z_string [z_min 1 ''Required'']),
             (''teamName'', z_default JNull z_null)] [] v = Inl i"
      by (cases "z_object [(''teamId'', z_string [z_min 1 ''Required'']),
             (''teamName'', z_default JNull z_null)] [] v") auto
    with x n show ?L
      by (simp add: parse_def registerInputSchema_def z_and_def z_or_def out)
  qed
qed

section \<open>The current-user accessor\<close>

text \<open>
  C1, as amended. In a render of \<open>useUser\<close> with no session (the session is null or
  undefined), the lookup is passed to the query library disabled, the render triggers
  no remote call and changes nothing (the world, and with it the trace, is the one
  before the render), and the returned data is the data cached under \<open>["user"]\<close>
  when the cache holds a value there, and null when it holds none.
\<close>

theorem useUser_no_session:
  "session = Null \<or> session = Undefined \<Longrightarrow>
   \<not> enabled (useUser_options api_get session) \<and>
   snd (useUser api_get session w) = w \<and>
   data (fst (useUser api_get session w)) =
     (case cache w [''user''] of None \<Rightarrow> Null | Some q \<Rightarrow> coalesce (state_data q) Null)"
  by (auto simp: useUser_def useUser_options_def useQuery_def should_fetch_def
      getUserQueryOptions_def truthy_object_def coalesce_def opt_chain_def
      query_options.extend_def use_query_options.fields_def Let_def
      split: option.splits nullish.splits)

theorem useUser_no_session_witness:
  "((Null :: string Session nullish) = Null \<or> (Null :: string Session nullish) = Undefined) \<and>
   \<not> enabled (useUser_options failing_api Null) \<and>
   snd (useUser failing_api Null empty_world) = empty_world \<and>
   data (fst (useUser failing_api Null empty_world)) = Null"
  using useUser_no_session [of Null failing_api empty_world]
  by (simp add: empty_world_def)

text \<open>
  C1 as stated fails: with no session and a user still cached under \<open>["user"]\<close>,
  the accessor returns the cached user, not null.
\<close>

theorem useUser_no_session_cached_counterexample:
  "data (fst (useUser failing_api Null cached_world)) = Def ''bob'' \<and>
   data (fst (useUser failing_api Null cached_world)) \<noteq> Null"
  by (simp add: useUser_def useUser_options_def useQuery_def should_fetch_def
      getUserQueryOptions_def truthy_object_def coalesce_def opt_chain_def
      query_options.extend_def use_query_options.fields_def cached_world_def)

text \<open>
  C2. In a render of \<open>useUser\<close> with a session that has a user, the returned data is
  the session's user, whatever the cache holds under \<open>["user"]\<close>.
\<close>

theorem useUser_session_precedence:
  "session = Def s \<Longrightarrow> user s = Def u \<Longrightarrow> data (fst (useUser api_get session w)) = Def u"
  by (auto simp: useUser_def coalesce_def opt_chain_def split: prod.splits)

theorem useUser_session_precedence_witness:
  "user alice_session = Def ''alice'' \<and>
   cache cached_world [''user''] = Some \<lparr>state_data = Def ''bob'', stale = False\<rparr> \<and>
   data (fst (useUser failing_api (Def alice_session) cached_world)) = Def ''alice''"
  using useUser_session_precedence
    [of "Def alice_session" alice_session "''alice''" failing_api cached_world]
  by (simp add: alice_session_def cached_world_def)

section \<open>The current-user lookup\<close>

text \<open>
  C4. When the call to \<open>/auth/me\<close> fails, for any reason, the query function of
  \<open>getUserQueryOptions\<close> returns null; and whatever the call does, the query
  function returns a value: it never fails.
\<close>

theorem queryFn_swallows_failures:
  "(api_get ''/auth/me'' = Inl e \<longrightarrow>
      fst (queryFn (getUserQueryOptions api_get) w) = Inr Null) \<and>
   \<not> isl (fst (queryFn (getUserQueryOptions api_get) w))"
  by (auto simp: getUserQueryOptions_def userQueryFn_def catch_all_def Let_def
      split: sum.splits)

theorem queryFn_swallows_failures_witness:
  "failing_api ''/auth/me'' = Inl (HttpError 401) \<and>
   fst (queryFn (getUserQueryOptions failing_api) empty_world) = Inr Null"
  using queryFn_swallows_failures [of failing_api "HttpError 401" empty_world]
  by (simp add: failing_api_def)

section \<open>Two query-client configurations\<close>

text \<open>
  C8. The configuration \<open>queryConfig\<close> re-raises errors, does not refetch on window
  focus, does not retry, and keeps entries fresh for 60 seconds; the client built by
  \<open>createQueryClient\<close> sets a staleness window of 30 seconds and nothing else.
\<close>

theorem query_client_configurations:
  "throwOnError (queries queryConfig) = Some True \<and>
   refetchOnWindowFocus (queries queryConfig) = Some False \<and>
   retry (queries queryConfig) = Some False \<and>
   staleTime (queries queryConfig) = Some (60 * 1000) \<and>
   defaultOptions queryClient = queryConfig \<and>
   staleTime (queries (defaultOptions createQueryClient)) = Some (30 * 1000) \<and>
   throwOnError (queries (defaultOptions createQueryClient)) = None \<and>
   refetchOnWindowFocus (queries (defaultOptions createQueryClient)) = None \<and>
   retry (queries (defaultOptions createQueryClient)) = None"
  by (simp add: queryConfig_def queryClient_def createQueryClient_def)

section \<open>Login\<close>

text \<open>
  C5. A login attempt through \<open>useLogin\<close> in which the provider's \<open>signIn\<close>
  answers. When the answer carries an error (a non-empty error string, which is what
  the code tests), the mutation fails with an error carrying that string and the
  success callback is not invoked: the trace gains the call to \<open>signIn\<close> and
  nothing else. When the answer carries no error, the mutation succeeds with the
  answer and the success callback is invoked exactly once, after the call.
\<close>

theorem useLogin_error_or_callback:
  assumes "signIn ''credentials'' (LoginInput.extend input (SignInOptions.fields False)) = Inr result"
  shows "(truthy_string (opt_chain result error) \<longrightarrow>
      (\<exists>msg. opt_chain result error = Def msg \<and>
         fst (useLogin (Some c) signIn input w) = Inl (Error msg)) \<and>
      trace (snd (useLogin (Some c) signIn input w)) = trace w @ [SignInCalled ''credentials''] \<and>
      count_list (trace (snd (useLogin (Some c) signIn input w))) (CallbackInvoked c)
        = count_list (trace w) (CallbackInvoked c)) \<and>
   (\<not> truthy_string (opt_chain result error) \<longrightarrow>
      fst (useLogin (Some c) signIn input w) = Inr result \<and>
      trace (snd (useLogin (Some c) signIn input w)) =
        trace w @ [SignInCalled ''credentials'', CallbackInvoked c] \<and>
      count_list (trace (snd (useLogin (Some c) signIn input w))) (CallbackInvoked c)
        = count_list (trace w) (CallbackInvoked c) + 1)"
  using assms
  by (auto simp: useLogin_def mutate_def useLogin_mutationFn_def invoke_def emit_def Let_def
      truthy_string_def new_Error_def split: nullish.splits)

theorem useLogin_error_or_callback_witness:
  "truthy_string (opt_chain (Def denied_response) error) \<and>
   fst (useLogin (Some ''toDashboard'') rejecting_signIn bob_login empty_world)
     = Inl (Error ''CredentialsSignin'') \<and>
   trace (snd (useLogin (Some ''toDashboard'') rejecting_signIn bob_login empty_world))
     = [SignInCalled ''credentials''] \<and>
   \<not> truthy_string (opt_chain (Def granted_response) error) \<and>
   fst (useLogin (Some ''toDashboard'') accepting_signIn bob_login empty_world)
     = Inr (Def granted_response) \<and>
   trace (snd (useLogin (Some ''toDashboard'') accepting_signIn bob_login empty_world))
     = [SignInCalled ''credentials'', CallbackInvoked ''toDashboard'']"
  using
    useLogin_error_or_callback
      [of rejecting_signIn bob_login "Def denied_response" "''toDashboard''" empty_world]
    useLogin_error_or_callback
      [of accepting_signIn bob_login "Def granted_response" "''toDashboard''" empty_world]
  by (simp add: rejecting_signIn_def accepting_signIn_def truthy_string_def opt_chain_def
      denied_response_def granted_response_def empty_world_def)

text \<open>
  C6. A login submission whose password is a string shorter than 5 characters, or
  whose email is a string that is not an email address, is rejected by
  \<open>loginInputSchema\<close>; the submission then ends with the issues and has made no
  call: the world, and with it the trace, is the one before the submission.
\<close>

theorem login_validation_before_signIn:
  assumes "(get_prop v ''password'' = JString p \<and> length p < 5) \<or>
           (get_prop v ''email'' = JString e \<and> \<not> is_email e)"
  shows "isl (parse (loginInputSchema is_email) v) \<and>
         isl (fst (submitLogin is_email onSuccess signIn v w)) \<and>
         snd (submitLogin is_email onSuccess signIn v w) = w"
proof -
  have "\<not> (\<exists>out. parse (loginInputSchema is_email) v = Inr out)"
    using assms unfolding loginInputSchema_accepts_iff by auto
  then obtain issues where "parse (loginInputSchema is_email) v = Inl issues"
    by (cases "parse (loginInputSchema is_email) v") auto
  then show ?thesis by (simp add: submitLogin_def)
qed

theorem login_validation_before_signIn_witness:
  "get_prop short_password_form ''password'' = JString ''1234'' \<and>
   length ''1234'' < (5::nat) \<and>
   isl (parse (loginInputSchema has_at) short_password_form) \<and>
   snd (submitLogin has_at (Some ''toDashboard'') accepting_signIn short_password_form empty_world)
     = empty_world \<and>
   get_prop bad_email_form ''email'' = JString ''bob'' \<and>
   \<not> has_at ''bob'' \<and>
   isl (parse (loginInputSchema has_at) bad_email_form) \<and>
   snd (submitLogin has_at (Some ''toDashboard'') accepting_signIn bad_email_form empty_world)
     = empty_world"
  using
    login_validation_before_signIn
      [of short_password_form "''1234''" "''bob@example.com''" has_at
          "Some ''toDashboard''" accepting_signIn empty_world]
    login_validation_before_signIn
      [of bad_email_form "''hunter22''" "''bob''" has_at
          "Some ''toDashboard''" accepting_signIn empty_world]
  by (simp add: short_password_form_def bad_email_form_def get_prop_def has_at_def)

section \<open>Logout\<close>

text \<open>
  C3, as amended. When the provider's sign-out succeeds, then for every prior state of
  the cache the entry under the key \<open>["user"]\<close> is absent after the logout, and the
  supplied success callback is invoked after the removal: the trace gains the
  sign-out call, then the removal, then the callback.
\<close>

theorem useLogout_removes_user:
  "signOut False = Inr r \<Longrightarrow>
   fst (useLogout onSuccess signOut w) = Inr r \<and>
   cache (snd (useLogout onSuccess signOut w)) [''user''] = None \<and>
   trace (snd (useLogout onSuccess signOut w)) =
     trace w @ [SignOutCalled, QueriesRemoved [''user'']] @
       (case onSuccess of None \<Rightarrow> [] | Some c \<Rightarrow> [CallbackInvoked c])"
  by (simp add: useLogout_def mutate_def useLogout_mutationFn_def useLogout_onSuccess_def
      invoke_def removeQueries_def emit_def split: option.splits)

theorem useLogout_removes_user_witness:
  "working_signOut False = Inr () \<and>
   cache cached_world [''user''] = Some \<lparr>state_data = Def ''bob'', stale = False\<rparr> \<and>
   cache (snd (useLogout (Some ''toLogin'') working_signOut cached_world)) [''user''] = None \<and>
   trace (snd (useLogout (Some ''toLogin'') working_signOut cached_world)) =
     [SignOutCalled, QueriesRemoved [''user''], CallbackInvoked ''toLogin'']"
  using useLogout_removes_user [of working_signOut "()" "Some ''toLogin''" cached_world]
  by (simp add: working_signOut_def cached_world_def)

text \<open>
  C3 as stated fails: when the provider's sign-out fails, the logout ends with the
  user still cached under \<open>["user"]\<close>.
\<close>

theorem useLogout_failed_signOut_counterexample:
  "cache (snd (useLogout (Some ''toLogin'') failing_signOut cached_world)) [''user'']
     = Some \<lparr>state_data = Def ''bob'', stale = False\<rparr>"
  by (simp add: useLogout_def mutate_def useLogout_mutationFn_def failing_signOut_def
      emit_def cached_world_def)

text \<open>
  C9. When the provider's sign-out fails, the logout fails with the same error, the
  cache is the one before the logout, and neither the removal nor the success callback
  happens: the trace gains the sign-out call and nothing else.
\<close>

theorem useLogout_failure_keeps_cache:
  "signOut False = Inl e \<Longrightarrow>
   fst (useLogout onSuccess signOut w) = Inl e \<and>
   cache (snd (useLogout onSuccess signOut w)) = cache w \<and>
   trace (snd (useLogout onSuccess signOut w)) = trace w @ [SignOutCalled]"
  by (simp add: useLogout_def mutate_def useLogout_mutationFn_def emit_def)

theorem useLogout_failure_keeps_cache_witness:
  "failing_signOut False = Inl NetworkError \<and>
   fst (useLogout (Some ''toLogin'') failing_signOut cached_world) = Inl NetworkError \<and>
   cache (snd (useLogout (Some ''toLogin'') failing_signOut cached_world)) = cache cached_world \<and>
   trace (snd (useLogout (Some ''toLogin'') failing_signOut cached_world)) = [SignOutCalled]"
  using useLogout_failure_keeps_cache
    [of failing_signOut NetworkError "Some ''toLogin''" cached_world]
  by (simp add: failing_signOut_def cached_world_def)

section \<open>Registration input\<close>

text \<open>
  C7. \<open>registerInputSchema\<close> rejects an input in which the team identifier and
  the team name are both non-empty strings, and an input in which both are absent
  (undefined or null). It accepts an input whose email, first name and last name are
  non-empty strings, whose password is a string of at least 5 characters, and in which
  exactly one of the team identifier and the team name is a non-empty string while the
  other is absent.
\<close>

theorem registerInputSchema_exactly_one_team:
  "(get_prop v ''teamId'' = JString i \<and> i \<noteq> [] \<and>
    get_prop v ''teamName'' = JString n \<and> n \<noteq> [] \<longrightarrow>
      isl (parse registerInputSchema v)) \<and>
   ((get_prop v ''teamId'' = JUndefined \<or> get_prop v ''teamId'' = JNull) \<and>
    (get_prop v ''teamName'' = JUndefined \<or> get_prop v ''teamName'' = JNull) \<longrightarrow>
      isl (parse registerInputSchema v)) \<and>
   (get_prop v ''email'' = JString e \<and> e \<noteq> [] \<and>
    get_prop v ''firstName'' = JString f \<and> f \<noteq> [] \<and>
    get_prop v ''lastName'' = JString l \<and> l \<noteq> [] \<and>
    get_prop v ''password'' = JString p \<and> 5 \<le> length p \<and>
    ((get_prop v ''teamId'' = JString i \<and> i \<noteq> [] \<and>
      (get_prop v ''teamName'' = JUndefined \<or> get_prop v ''teamName'' = JNull)) \<or>
     (get_prop v ''teamName'' = JString n \<and> n \<noteq> [] \<and>
      (get_prop v ''teamId'' = JUndefined \<or> get_prop v ''teamId'' = JNull))) \<longrightarrow>
      \<not> isl (parse registerInputSchema v))"
proof (intro conjI impI)
  assume "get_prop v ''teamId'' = JString i \<and> i \<noteq> [] \<and>
    get_prop v ''teamName'' = JString n \<and> n \<noteq> []"
  then have "\<not> (\<exists>out. parse registerInputSchema v = Inr out)"
    unfolding registerInputSchema_accepts_iff by auto
  then show "isl (parse registerInputSchema v)"
    by (cases "parse registerInputSchema v") auto
next
  assume "(get_prop v ''teamId'' = JUndefined \<or> get_prop v ''teamId'' = JNull) \<and>
    (get_prop v ''teamName'' = JUndefined \<or> get_prop v ''teamName'' = JNull)"
  then have "\<not> (\<exists>out. parse registerInputSchema v = Inr out)"
    unfolding registerInputSchema_accepts_iff by auto
  then show "isl (parse registerInputSchema v)"
    by (cases "parse registerInputSchema v") auto
next
  assume "get_prop v ''email'' = JString e \<and> e \<noteq> [] \<and>
    get_prop v ''firstName'' = JString f \<and> f \<noteq> [] \<and>
    get_prop v ''lastName'' = JString l \<and> l \<noteq> [] \<and>
    get_prop v ''password'' = JString p \<and> 5 \<le> length p \<and>
    ((get_prop v ''teamId'' = JString i \<and> i \<noteq> [] \<and>
      (get_prop v ''teamName'' = JUndefined \<or> get_prop v ''teamName'' = JNull)) \<or>
     (get_prop v ''teamName'' = JString n \<and> n \<noteq> [] \<and>
      (get_prop v ''teamId'' = JUndefined \<or> get_prop v ''teamId'' = JNull)))"
  then have "\<exists>out. parse registerInputSchema v = Inr out"
    unfolding registerInputSchema_accepts_iff by (auto simp: Suc_le_eq)
  then show "\<not> isl (parse registerInputSchema v)"
    by auto
qed

theorem registerInputSchema_exactly_one_team_witness:
  "isl (parse registerInputSchema register_both) \<and>
   isl (parse registerInputSchema register_neither) \<and>
   \<not> isl (parse registerInputSchema register_joining) \<and>
   \<not> isl (parse registerInputSchema register_founding)"
  using
    registerInputSchema_exactly_one_team
      [of register_both "''team-7''" "''Painters''"]
    registerInputSchema_exactly_one_team
      [of register_neither]
    registerInputSchema_exactly_one_team
      [of register_joining "''team-7''" _ "''bob@example.com''" "''Bob''" "''Ross''" "''hunter22''"]
    registerInputSchema_exactly_one_team
      [of register_founding _ "''Painters''" "''bob@example.com''" "''Bob''" "''Ross''" "''hunter22''"]
  by (simp add: register_both_def register_neither_def register_joining_def
      register_founding_def register_base_def get_prop_def)

text \<open>
  C10. Every input that \<open>registerInputSchema\<close> accepts parses to an output that has
  both the keys \<open>teamId\<close> and \<open>teamName\<close>; one of the two is a non-empty string
  and the other is null.
\<close>

theorem registerInputSchema_output_teams:
  assumes "parse registerInputSchema v = Inr out"
  shows "has_key out ''teamId'' \<and> has_key out ''teamName'' \<and>
    ((\<exists>s. get_prop out ''teamId'' = JString s \<and> s \<noteq> [] \<and> get_prop out ''teamName'' = JNull) \<or>
     (\<exists>s. get_prop out ''teamName'' = JString s \<and> s \<noteq> [] \<and> get_prop out ''teamId'' = JNull))"
  using assms unfolding registerInputSchema_accepts_iff
  by (auto simp: has_key_def get_prop_def Suc_le_eq)

theorem registerInputSchema_output_teams_witness:
  "parse registerInputSchema register_joining =
     Inr (JObject (register_base @ [(''teamId'', JString ''team-7''), (''teamName'', JNull)])) \<and>
   has_key (JObject (register_base @ [(''teamId'', JString ''team-7''), (''teamName'', JNull)]))
     ''teamName'' \<and>
   get_prop (JObject (register_base @ [(''teamId'', JString ''team-7''), (''teamName'', JNull)]))
     ''teamName'' = JNull"
proof -
  have p: "parse registerInputSchema register_joining =
     Inr (JObject (register_base @ [(''teamId'', JString ''team-7''), (''teamName'', JNull)]))"
    unfolding registerInputSchema_accepts_iff
    by (simp add: register_joining_def register_base_def get_prop_def)
  from registerInputSchema_output_teams [OF p] p show ?thesis
    by (simp add: register_base_def get_prop_def has_key_def)
qed

end
